theory Spec2Isabelle
  imports Main "HOL-Library.Word"
begin

text \<open>
  server.js is the whole program: an Express application with one endpoint,
  \<open>POST /api/suggest\<close>, and a WebSocket server that opens a chat with a generative
  model for each connection and sends the model's transcripts to the browser. The
  theory models the values the handlers work on, then the module's startup, the
  connection handler with its listeners and its downstream loop, and the endpoint's
  handler, each as a function from what the handler receives to what it does.
\<close>

section \<open>JavaScript values as server.js sees them\<close>

text \<open>
  A JavaScript string is a sequence of 16-bit code units. The literals of server.js that
  are not ASCII are written out as their code units below.
\<close>

type_synonym code_unit = "16 word"
type_synonym jsstring = "code_unit list"

definition ascii :: "string \<Rightarrow> jsstring" where
  "ascii s = map (\<lambda>c. of_nat (of_char c)) s"

text \<open>
  A Number is an IEEE double: not a number, an infinity, the negative zero, or the finite
  value \<open>m * 2 ^ e\<close>. server.js never computes with numbers; it only tests them
  for truthiness and turns them into text.
\<close>

datatype js_number = NaN | PosInfinity | NegInfinity | NegZero | Dyadic int int

text \<open>
  The values that reach the handlers: what \<open>JSON.parse\<close> produces (the request body
  parsed by \<open>express.json()\<close>, the backend's responses), and \<open>undefined\<close>
  for a property that is not there. An object is its own properties in enumeration order.
\<close>

datatype js_value =
    JUndefined
  | JNull
  | JBool bool
  | JNum js_number
  | JStr jsstring
  | JArr "js_value list"
  | JObj "(jsstring \<times> js_value) list"

datatype access = Prop jsstring | Index nat

text \<open>
  What a \<open>catch\<close> clause can receive: a value thrown by library code (for an Error
  instance, the object with its \<open>message\<close> property), or an error the engine
  itself raises while evaluating server.js.
\<close>

datatype js_exn =
    Thrown js_value
  | TypeError_read js_value access
  | TypeError_not_a_function jsstring
  | TypeError_to_primitive
  | ReferenceError jsstring

text \<open>
  What the host (Node.js and its engine) supplies and server.js does not define:
  \<^item> \<open>Number_toString\<close>: the decimal text of a number;
  \<^item> \<open>engine_message\<close>: the \<open>message\<close> of an error raised by the engine (its
    wording is the engine's);
  \<^item> \<open>global_WebSocket\<close>: whether the global scope binds \<open>WebSocket\<close>. server.js
    line 3 imports only \<open>WebSocketServer\<close> from the ws package, and line 56 reads
    \<open>WebSocket.OPEN\<close>, so the name resolves to the host's global if there is one
    (Node.js 22 and later define it, with \<open>OPEN = 1\<close> as in ws; earlier versions do not);
  \<^item> \<open>JSON_parse\<close>: the builtin \<open>JSON.parse\<close>, which returns a value or throws.
\<close>

record host =
  Number_toString :: "js_number \<Rightarrow> jsstring"
  engine_message :: "js_exn \<Rightarrow> jsstring"
  global_WebSocket :: bool
  JSON_parse :: "js_value \<Rightarrow> js_exn + js_value"

subsection \<open>Truthiness (ToBoolean)\<close>

fun number_truthy :: "js_number \<Rightarrow> bool" where
  "number_truthy NaN = False"
| "number_truthy NegZero = False"
| "number_truthy (Dyadic m e) = (m \<noteq> 0)"
| "number_truthy PosInfinity = True"
| "number_truthy NegInfinity = True"

fun truthy :: "js_value \<Rightarrow> bool" where
  "truthy JUndefined = False"
| "truthy JNull = False"
| "truthy (JBool b) = b"
| "truthy (JNum n) = number_truthy n"
| "truthy (JStr s) = (s \<noteq> [])"
| "truthy (JArr xs) = True"
| "truthy (JObj kvs) = True"

fun nullish :: "js_value \<Rightarrow> bool" where
  "nullish JUndefined = True"
| "nullish JNull = True"
| "nullish v = False"

subsection \<open>Property access\<close>

text \<open>
  \<open>v.name\<close> for the names server.js reads (\<open>text\<close>, \<open>message\<close>,
  \<open>response\<close>, \<open>candidates\<close>, \<open>content\<close>, \<open>parts\<close>): none of them is a
  property of a builtin prototype, so only an object's own properties can answer.
  Reading a property of \<open>undefined\<close> or \<open>null\<close> throws a TypeError.
\<close>

fun get_prop :: "js_value \<Rightarrow> jsstring \<Rightarrow> js_exn + js_value" where
  "get_prop JUndefined k = Inl (TypeError_read JUndefined (Prop k))"
| "get_prop JNull k = Inl (TypeError_read JNull (Prop k))"
| "get_prop (JObj kvs) k = Inr (case map_of kvs k of None \<Rightarrow> JUndefined | Some v \<Rightarrow> v)"
| "get_prop v k = Inr JUndefined"

fun decimal :: "nat \<Rightarrow> jsstring" where
  "decimal n = (if n < 10 then [0x30 + of_nat n] else decimal (n div 10) @ [0x30 + of_nat (n mod 10)])"

text \<open>\<open>v[i]\<close>: an array element, a one-unit string, or an object's property named by the index.\<close>

fun get_index :: "js_value \<Rightarrow> nat \<Rightarrow> js_exn + js_value" where
  "get_index JUndefined i = Inl (TypeError_read JUndefined (Index i))"
| "get_index JNull i = Inl (TypeError_read JNull (Index i))"
| "get_index (JArr xs) i = Inr (if i < length xs then xs ! i else JUndefined)"
| "get_index (JStr s) i = Inr (if i < length s then JStr [s ! i] else JUndefined)"
| "get_index (JObj kvs) i = Inr (case map_of kvs (decimal i) of None \<Rightarrow> JUndefined | Some v \<Rightarrow> v)"
| "get_index v i = Inr JUndefined"

fun get_access :: "js_value \<Rightarrow> access \<Rightarrow> js_exn + js_value" where
  "get_access v (Prop k) = get_prop v k"
| "get_access v (Index i) = get_index v i"

text \<open>A chain \<open>v.a[0].b\<close>: the first failing access throws.\<close>

fun get_path :: "js_value \<Rightarrow> access list \<Rightarrow> js_exn + js_value" where
  "get_path v [] = Inr v"
| "get_path v (a # as) = (case get_access v a of Inl e \<Rightarrow> Inl e | Inr w \<Rightarrow> get_path w as)"

text \<open>A chain \<open>v?.a?.[0]?.b\<close>: \<open>undefined\<close> as soon as a base is \<open>undefined\<close> or \<open>null\<close>.\<close>

fun get_path_opt :: "js_value \<Rightarrow> access list \<Rightarrow> js_exn + js_value" where
  "get_path_opt v [] = Inr v"
| "get_path_opt v (a # as) =
     (if nullish v then Inr JUndefined
      else case get_access v a of Inl e \<Rightarrow> Inl e | Inr w \<Rightarrow> get_path_opt w as)"

subsection \<open>Strings: join, trim, conversion to string\<close>

fun join :: "jsstring \<Rightarrow> jsstring list \<Rightarrow> jsstring" where
  "join sep [] = []"
| "join sep [s] = s"
| "join sep (s # t # ts) = s @ sep @ join sep (t # ts)"

text \<open>White space and line terminators of ECMAScript: what \<open>String.prototype.trim\<close> strips.\<close>

definition is_whitespace :: "code_unit \<Rightarrow> bool" where
  "is_whitespace c =
     (c \<in> {0x9, 0xA, 0xB, 0xC, 0xD, 0x20, 0xA0, 0x1680, 0x2028, 0x2029, 0x202F, 0x205F, 0x3000, 0xFEFF}
      \<or> (0x2000 \<le> c \<and> c \<le> 0x200A))"

definition trim :: "jsstring \<Rightarrow> jsstring" where
  "trim s = rev (dropWhile is_whitespace (rev (dropWhile is_whitespace s)))"

fun sequence_exn :: "(js_exn + 'a) list \<Rightarrow> js_exn + 'a list" where
  "sequence_exn [] = Inr []"
| "sequence_exn (Inl e # rs) = Inl e"
| "sequence_exn (Inr x # rs) = (case sequence_exn rs of Inl e \<Rightarrow> Inl e | Inr xs \<Rightarrow> Inr (x # xs))"

text \<open>
  ToString, as a template literal applies it. An array is joined with commas, its
  \<open>undefined\<close> and \<open>null\<close> elements as the empty string. An object answers
  \<open>[object Object]\<close> through \<open>Object.prototype.toString\<close>, unless it has an own
  property \<open>toString\<close>: a parsed JSON value is never callable, \<open>valueOf\<close> then
  returns the object itself or is not callable either, and the conversion throws a TypeError.
\<close>

fun ToString :: "host \<Rightarrow> js_value \<Rightarrow> js_exn + jsstring" where
  "ToString h JUndefined = Inr (ascii ''undefined'')"
| "ToString h JNull = Inr (ascii ''null'')"
| "ToString h (JBool b) = Inr (if b then ascii ''true'' else ascii ''false'')"
| "ToString h (JNum n) = Inr (Number_toString h n)"
| "ToString h (JStr s) = Inr s"
| "ToString h (JArr xs) =
     (case sequence_exn (map (\<lambda>x. if nullish x then Inr [] else ToString h x) xs) of
        Inl e \<Rightarrow> Inl e
      | Inr parts \<Rightarrow> Inr (join (ascii '','') parts))"
| "ToString h (JObj kvs) =
     (if map_of kvs (ascii ''toString'') = None then Inr (ascii ''[object Object]'')
      else Inl TypeError_to_primitive)"

subsection \<open>JSON.stringify\<close>

definition hex_digit :: "nat \<Rightarrow> code_unit" where
  "hex_digit n = (if n < 10 then 0x30 + of_nat n else 0x57 + of_nat n)"

definition unicode_escape :: "code_unit \<Rightarrow> jsstring" where
  "unicode_escape c =
     (let n = unat c
      in [0x5C, 0x75, hex_digit (n div 4096 mod 16), hex_digit (n div 256 mod 16),
          hex_digit (n div 16 mod 16), hex_digit (n mod 16)])"

definition is_high_surrogate :: "code_unit \<Rightarrow> bool" where
  "is_high_surrogate c = (0xD800 \<le> c \<and> c \<le> 0xDBFF)"

definition is_low_surrogate :: "code_unit \<Rightarrow> bool" where
  "is_low_surrogate c = (0xDC00 \<le> c \<and> c \<le> 0xDFFF)"

text \<open>One code unit that is not half of a surrogate pair, as QuoteJSONString writes it.\<close>

definition quote_unit :: "code_unit \<Rightarrow> jsstring" where
  "quote_unit c =
     (if c = 0x08 then [0x5C, 0x62]
      else if c = 0x09 then [0x5C, 0x74]
      else if c = 0x0A then [0x5C, 0x6E]
      else if c = 0x0C then [0x5C, 0x66]
      else if c = 0x0D then [0x5C, 0x72]
      else if c = 0x22 then [0x5C, 0x22]
      else if c = 0x5C then [0x5C, 0x5C]
      else if c < 0x20 \<or> is_high_surrogate c \<or> is_low_surrogate c then unicode_escape c
      else [c])"

fun quote_units :: "jsstring \<Rightarrow> jsstring" where
  "quote_units [] = []"
| "quote_units [c] = quote_unit c"
| "quote_units (c # d # ds) =
     (if is_high_surrogate c \<and> is_low_surrogate d then c # d # quote_units ds
      else quote_unit c @ quote_units (d # ds))"

definition QuoteJSONString :: "jsstring \<Rightarrow> jsstring" where
  "QuoteJSONString s = [0x22] @ quote_units s @ [0x22]"

fun number_finite :: "js_number \<Rightarrow> bool" where
  "number_finite (Dyadic m e) = True"
| "number_finite NegZero = True"
| "number_finite n = False"

text \<open>
  The text of a value, or \<open>None\<close> where \<open>JSON.stringify\<close> answers \<open>undefined\<close>.
  A property whose value has no text is left out of an object; in an array it is
  written \<open>null\<close>. No indentation: server.js passes no third argument.
\<close>

fun json_text :: "host \<Rightarrow> js_value \<Rightarrow> jsstring option" where
  "json_text h JUndefined = None"
| "json_text h JNull = Some (ascii ''null'')"
| "json_text h (JBool b) = Some (if b then ascii ''true'' else ascii ''false'')"
| "json_text h (JNum n) = Some (if number_finite n then Number_toString h n else ascii ''null'')"
| "json_text h (JStr s) = Some (QuoteJSONString s)"
| "json_text h (JArr xs) =
     Some (ascii ''['' @
           join (ascii '','')
             (map (\<lambda>x. case json_text h x of None \<Rightarrow> ascii ''null'' | Some t \<Rightarrow> t) xs) @
           ascii '']'')"
| "json_text h (JObj kvs) =
     Some (ascii ''{'' @
           join (ascii '','')
             (concat (map (\<lambda>kv. case json_text h (snd kv) of
                                   None \<Rightarrow> []
                                 | Some t \<Rightarrow> [QuoteJSONString (fst kv) @ ascii '':'' @ t]) kvs)) @
           ascii ''}'')"

definition JSON_stringify :: "host \<Rightarrow> js_value \<Rightarrow> js_value" where
  "JSON_stringify h v = (case json_text h v of None \<Rightarrow> JUndefined | Some t \<Rightarrow> JStr t)"

section \<open>The string literals of server.js\<close>

text \<open>
  Each constant is the literal of the given line of server.js, as its UTF-16 code units.
  \<open>prompt_prefix\<close> and \<open>prompt_suffix\<close> are the two fixed parts of the template
  literal of line 93, around \<open>${transcript}\<close>; the prefix ends and the suffix starts
  with a double quote.
\<close>

definition msg_config_missing :: jsstring where \<comment> \<open>line 14\<close>
  "msg_config_missing =
    [0x30A8, 0x30E9, 0x30FC, 0x3A, 0x20, 0x74B0, 0x5883, 0x5909, 0x6570, 0x20, 0x28, 0x47,
     0x4F, 0x4F, 0x47, 0x4C, 0x45, 0x5F, 0x50, 0x52, 0x4F, 0x4A, 0x45, 0x43, 0x54, 0x5F, 0x49,
     0x44, 0x2C, 0x20, 0x47, 0x4F, 0x4F, 0x47, 0x4C, 0x45, 0x5F, 0x43, 0x52, 0x45, 0x44, 0x45,
     0x4E, 0x54, 0x49, 0x41, 0x4C, 0x53, 0x5F, 0x4A, 0x53, 0x4F, 0x4E, 0x29, 0x20, 0x304C,
     0x8A2D, 0x5B9A, 0x3055, 0x308C, 0x3066, 0x3044, 0x307E, 0x305B, 0x3093, 0x3002]"

definition msg_client_connected :: jsstring where \<comment> \<open>line 41\<close>
  "msg_client_connected =
    [0x30AF, 0x30E9, 0x30A4, 0x30A2, 0x30F3, 0x30C8, 0x20, 0x28, 0x30D6, 0x30E9, 0x30A6,
     0x30B6, 0x29, 0x20, 0x304C, 0x63A5, 0x7D9A, 0x3057, 0x307E, 0x3057, 0x305F, 0x3002]"

definition msg_stream_started :: jsstring where \<comment> \<open>line 46\<close>
  "msg_stream_started =
    [0x47, 0x65, 0x6D, 0x69, 0x6E, 0x69, 0x20, 0x4C, 0x69, 0x76, 0x65, 0x20, 0x41, 0x50, 0x49,
     0x20, 0x3068, 0x306E, 0x63A5, 0x7D9A, 0x3092, 0x958B, 0x59CB, 0x3057, 0x307E, 0x3057,
     0x305F, 0x3002]"

definition msg_stream_receive_error :: jsstring where \<comment> \<open>line 62\<close>
  "msg_stream_receive_error =
    [0x47, 0x65, 0x6D, 0x69, 0x6E, 0x69, 0x30B9, 0x30C8, 0x30EA, 0x30FC, 0x30E0, 0x53D7,
     0x4FE1, 0x30A8, 0x30E9, 0x30FC, 0x3A]"

definition msg_connect_error :: jsstring where \<comment> \<open>line 81\<close>
  "msg_connect_error =
    [0x47, 0x65, 0x6D, 0x69, 0x6E, 0x69, 0x20, 0x4C, 0x69, 0x76, 0x65, 0x20, 0x41, 0x50, 0x49,
     0x3068, 0x306E, 0x63A5, 0x7D9A, 0x30A8, 0x30E9, 0x30FC, 0x3A]"

definition msg_client_disconnected :: jsstring where \<comment> \<open>line 84\<close>
  "msg_client_disconnected =
    [0x30AF, 0x30E9, 0x30A4, 0x30A2, 0x30F3, 0x30C8, 0x304C, 0x5207, 0x65AD, 0x3057, 0x307E,
     0x3057, 0x305F, 0x3002]"

definition prompt_prefix :: jsstring where \<comment> \<open>line 93\<close>
  "prompt_prefix =
    [0x3042, 0x306A, 0x305F, 0x306F, 0x512A, 0x79C0, 0x306A, 0x30E9, 0x30B8, 0x30AA, 0x756A,
     0x7D44, 0x306E, 0x653E, 0x9001, 0x4F5C, 0x5BB6, 0x3067, 0x3059, 0x3002, 0x4EE5, 0x4E0B,
     0x306E, 0x30C8, 0x30FC, 0x30AF, 0x5185, 0x5BB9, 0x3092, 0x8E0F, 0x307E, 0x3048, 0x3001,
     0x6B21, 0x306B, 0x76DB, 0x308A, 0x4E0A, 0x304C, 0x308B, 0x8A71, 0x984C, 0x306E, 0x30A2,
     0x30A4, 0x30C7, 0x30A2, 0x3092, 0x33, 0x3064, 0x63D0, 0x6848, 0x3057, 0x3066, 0x304F,
     0x3060, 0x3055, 0x3044, 0x3002, 0x23, 0x20, 0x30C8, 0x30FC, 0x30AF, 0x5185, 0x5BB9, 0x3A,
     0x20, 0x22]"

definition prompt_suffix :: jsstring where \<comment> \<open>line 93\<close>
  "prompt_suffix =
    [0x22, 0x20, 0x23, 0x20, 0x6B21, 0x306E, 0x8A71, 0x984C, 0x306E, 0x63D0, 0x6848, 0x3A]"

definition msg_suggest_error :: jsstring where \<comment> \<open>line 100\<close>
  "msg_suggest_error =
    [0x8A71, 0x984C, 0x63D0, 0x6848, 0x41, 0x49, 0x30A8, 0x30E9, 0x30FC, 0x3A]"

section \<open>Startup (server.js lines 8 to 37 and 105 to 108)\<close>

text \<open>
  \<open>process.env\<close>: a variable is a string or is not set. What the module does at load
  time is the list of its effects, in order. \<open>process.exit\<close> ends the process, so
  nothing follows it; an exception thrown at top level ends it too.
\<close>

type_synonym environment = "jsstring \<Rightarrow> jsstring option"

datatype startup_effect =
    ConsoleError jsstring
  | ProcessExit nat
  | Uncaught js_exn
  | NewVertexAI js_value js_value js_value
  | ServerListen js_value

definition getenv :: "environment \<Rightarrow> string \<Rightarrow> js_value" where
  "getenv env name = (case env (ascii name) of None \<Rightarrow> JUndefined | Some s \<Rightarrow> JStr s)"

text \<open>\<open>a || b\<close>\<close>

definition or_else :: "js_value \<Rightarrow> js_value \<Rightarrow> js_value" where
  "or_else a b = (if truthy a then a else b)"

definition PROJECT_ID :: "environment \<Rightarrow> js_value" where
  "PROJECT_ID env = getenv env ''GOOGLE_PROJECT_ID''"

definition LOCATION :: "environment \<Rightarrow> js_value" where
  "LOCATION env = or_else (getenv env ''GOOGLE_LOCATION'') (JStr (ascii ''asia-northeast1''))"

definition CREDENTIALS_JSON :: "environment \<Rightarrow> js_value" where
  "CREDENTIALS_JSON env = getenv env ''GOOGLE_CREDENTIALS_JSON''"

definition PORT :: "environment \<Rightarrow> js_value" where
  "PORT env = or_else (getenv env ''PORT'') (JNum (Dyadic 3000 0))"

text \<open>
  Lines 13 to 16 check the two required variables; line 19 parses the credentials;
  lines 20 to 24 build the client from project, location and credentials; line 106
  binds the listener. The constructors of the libraries (VertexAI, express,
  http.createServer, WebSocketServer) are taken to return.
\<close>

definition startup :: "host \<Rightarrow> environment \<Rightarrow> startup_effect list" where
  "startup h env =
     (if \<not> truthy (PROJECT_ID env) \<or> \<not> truthy (CREDENTIALS_JSON env)
      then [ConsoleError msg_config_missing, ProcessExit 1]
      else case JSON_parse h (CREDENTIALS_JSON env) of
             Inl e \<Rightarrow> [Uncaught e]
           | Inr credentials \<Rightarrow>
               [NewVertexAI (PROJECT_ID env) (LOCATION env) credentials, ServerListen (PORT env)])"

fun is_listen :: "startup_effect \<Rightarrow> bool" where
  "is_listen (ServerListen p) = True"
| "is_listen e = False"

section \<open>The WebSocket relay (server.js lines 40 to 85)\<close>

datatype ready_state = CONNECTING | OPEN | CLOSING | CLOSED

datatype backend_call = StartChat | SendMessageStream jsstring

datatype log_entry = Logged jsstring | LoggedError jsstring js_exn

text \<open>
  One browser connection and what the handler has done for it:
  \<^item> \<open>ws_readyState\<close>: the state of the socket, kept by the ws package;
  \<^item> \<open>ws_sent\<close>: the arguments of the \<open>ws.send\<close> calls, in order;
  \<^item> \<open>ws_close_calls\<close>: one entry per \<open>ws.close\<close> call, the close code it passed
    (\<open>None\<close>: called with no argument);
  \<^item> \<open>backend_calls\<close>: the calls made on the generative model and its chat, in order;
  \<^item> \<open>console\<close>: the lines written by \<open>console.log\<close> and \<open>console.error\<close>;
  \<^item> \<open>downstream_running\<close>: the \<open>for await\<close> loop of lines 53 to 60 is still
    reading the backend stream;
  \<^item> \<open>message_handler\<close>, \<open>close_handler\<close>: the listener of line 67, of line 84, is
    registered.
\<close>

record session =
  ws_readyState :: ready_state
  ws_sent :: "js_value list"
  ws_close_calls :: "nat option list"
  backend_calls :: "backend_call list"
  console :: "log_entry list"
  downstream_running :: bool
  message_handler :: bool
  close_handler :: bool

text \<open>How opening the backend session ends: line 45 throws, line 48 rejects, or both succeed.\<close>

datatype open_result = StartChatThrows js_exn | SendMessageStreamRejects js_exn | StreamOpened

text \<open>What happens to a session afterwards, one event at a time.\<close>

datatype event =
    BrowserMessage "8 word list"
  | BrowserClose
  | StreamItem js_value
  | StreamEnd
  | StreamError js_exn

definition accepted :: session where
  "accepted =
     \<lparr>ws_readyState = OPEN, ws_sent = [], ws_close_calls = [], backend_calls = [], console = [],
      downstream_running = False, message_handler = False, close_handler = False\<rparr>"

text \<open>
  \<open>ws.close()\<close> with no argument (line 82): no close code is passed. An open socket
  starts closing; on a socket that is closing or closed already the call changes nothing.
\<close>

definition ws_close :: "session \<Rightarrow> session" where
  "ws_close s =
     s\<lparr>ws_close_calls := ws_close_calls s @ [None],
       ws_readyState := (if ws_readyState s = OPEN then CLOSING else ws_readyState s)\<rparr>"

definition ws_send :: "session \<Rightarrow> js_value \<Rightarrow> session" where
  "ws_send s data = s\<lparr>ws_sent := ws_sent s @ [data]\<rparr>"

definition console_log :: "session \<Rightarrow> jsstring \<Rightarrow> session" where
  "console_log s m = s\<lparr>console := console s @ [Logged m]\<rparr>"

definition console_error :: "session \<Rightarrow> jsstring \<Rightarrow> js_exn \<Rightarrow> session" where
  "console_error s m e = s\<lparr>console := console s @ [LoggedError m e]\<rparr>"

text \<open>
  The connection handler, lines 40 to 85. In the \<open>try\<close> block: \<open>startChat\<close>, a log
  line, \<open>sendMessageStream('')\<close>, then the downstream loop is started and the message
  listener registered. The \<open>catch\<close> block logs and calls \<open>ws.close()\<close>. The close
  listener is registered on every path.

  The handler awaits on lines 45 and 48, and the browser may go away meanwhile: \<open>st\<close>
  is the state of the socket when the handler resumes, after its last \<open>await\<close>. A
  close during the setup reaches no listener, since line 84 has not run yet.
\<close>

definition connection_handler :: "ready_state \<Rightarrow> open_result \<Rightarrow> session" where
  "connection_handler st r =
     (let s0 = console_log accepted msg_client_connected;
          s1 = s0\<lparr>backend_calls := [StartChat], ws_readyState := st\<rparr>;
          s2 = (console_log s1 msg_stream_started)\<lparr>backend_calls := [StartChat, SendMessageStream []]\<rparr>;
          s3 = (case r of
                  StartChatThrows e \<Rightarrow> ws_close (console_error s1 msg_connect_error e)
                | SendMessageStreamRejects e \<Rightarrow> ws_close (console_error s2 msg_connect_error e)
                | StreamOpened \<Rightarrow> s2\<lparr>downstream_running := True, message_handler := True\<rparr>)
      in s3\<lparr>close_handler := True\<rparr>)"

text \<open>The handler for a browser that stays connected while the backend session is opened.\<close>

definition on_connection :: "open_result \<Rightarrow> session" where
  "on_connection r = connection_handler OPEN r"

text \<open>The message listener, lines 67 to 78: its body holds comments only.\<close>

definition on_message :: "session \<Rightarrow> 8 word list \<Rightarrow> session" where
  "on_message s message = s"

text \<open>The close listener, line 84.\<close>

definition on_close :: "session \<Rightarrow> session" where
  "on_close s = console_log s msg_client_disconnected"

text \<open>The expression \<open>WebSocket.OPEN\<close> of line 56.\<close>

definition WebSocket_OPEN :: "host \<Rightarrow> js_exn + ready_state" where
  "WebSocket_OPEN h = (if global_WebSocket h then Inr OPEN else Inl (ReferenceError (ascii ''WebSocket'')))"

text \<open>The \<open>catch\<close> of lines 61 to 63: the error is logged and the loop is over.\<close>

definition stream_catch :: "session \<Rightarrow> js_exn \<Rightarrow> session" where
  "stream_catch s e = (console_error s msg_stream_receive_error e)\<lparr>downstream_running := False\<rparr>"

text \<open>\<open>[0].content.parts[0].text\<close>, the accesses that follow \<open>candidates\<close> on lines 54, 55 and 97.\<close>

definition first_text :: "access list" where
  "first_text = [Index 0, Prop (ascii ''content''), Prop (ascii ''parts''), Index 0, Prop (ascii ''text'')]"

text \<open>The condition of line 54: \<open>item.candidates?.[0]?.content?.parts?.[0]?.text\<close>.\<close>

definition item_text :: "js_value \<Rightarrow> js_exn + js_value" where
  "item_text item =
     (case get_prop item (ascii ''candidates'') of
        Inl e \<Rightarrow> Inl e
      | Inr c \<Rightarrow> get_path_opt c first_text)"

definition transcript_message :: "js_value \<Rightarrow> js_value" where
  "transcript_message transcript =
     JObj [(ascii ''type'', JStr (ascii ''transcript'')), (ascii ''data'', transcript)]"

text \<open>The body of the loop, lines 54 to 59, for one item of the stream.\<close>

definition on_stream_item :: "host \<Rightarrow> session \<Rightarrow> js_value \<Rightarrow> session" where
  "on_stream_item h s item =
     (case item_text item of
        Inl e \<Rightarrow> stream_catch s e
      | Inr t \<Rightarrow>
          if truthy t then
            (case get_path item (Prop (ascii ''candidates'') # first_text) of
               Inl e \<Rightarrow> stream_catch s e
             | Inr transcript \<Rightarrow>
                 (case WebSocket_OPEN h of
                    Inl e \<Rightarrow> stream_catch s e
                  | Inr opn \<Rightarrow>
                      if ws_readyState s = opn
                      then ws_send s (JSON_stringify h (transcript_message transcript))
                      else s))
          else s)"

text \<open>
  One event. The browser's closing sets the socket to CLOSED and runs the close
  listener. The stream's items, its end and its error reach the loop while it runs.
\<close>

fun step :: "host \<Rightarrow> session \<Rightarrow> event \<Rightarrow> session" where
  "step h s (BrowserMessage message) = (if message_handler s then on_message s message else s)"
| "step h s BrowserClose =
     (let s' = s\<lparr>ws_readyState := CLOSED\<rparr> in if close_handler s' then on_close s' else s')"
| "step h s (StreamItem item) = (if downstream_running s then on_stream_item h s item else s)"
| "step h s StreamEnd = s\<lparr>downstream_running := False\<rparr>"
| "step h s (StreamError e) = (if downstream_running s then stream_catch s e else s)"

definition run :: "host \<Rightarrow> session \<Rightarrow> event list \<Rightarrow> session" where
  "run h s evs = foldl (step h) s evs"

section \<open>The suggestion endpoint (server.js lines 88 to 103)\<close>

text \<open>
  What the handler leaves behind: a response written through \<open>res\<close> (status code and
  the object given to \<open>res.json\<close>), or no response because the handler's promise
  rejected outside the \<open>try\<close> block.
\<close>

datatype http_outcome = Responded nat js_value | Unhandled js_exn

text \<open>
  \<open>generate_calls\<close>: the model name and the prompt of each \<open>generateContent\<close> call,
  in order.
\<close>

record suggest_result =
  outcome :: http_outcome
  generate_calls :: "(jsstring \<times> jsstring) list"
  console_out :: "log_entry list"

text \<open>
  The backend: \<open>getGenerativeModel({model}).generateContent(prompt)\<close>, awaited. It
  resolves with a result or rejects.
\<close>

type_synonym backend = "jsstring \<Rightarrow> jsstring \<Rightarrow> js_exn + js_value"

text \<open>\<open>error.message\<close> in the \<open>catch\<close> block of line 101.\<close>

definition exn_message :: "host \<Rightarrow> js_exn \<Rightarrow> js_exn + js_value" where
  "exn_message h e =
     (case e of Thrown v \<Rightarrow> get_prop v (ascii ''message'') | _ \<Rightarrow> Inr (JStr (engine_message h e)))"

text \<open>\<open>suggestion.trim()\<close> of line 98: only a string has the method.\<close>

fun call_trim :: "js_value \<Rightarrow> js_exn + jsstring" where
  "call_trim (JStr s) = Inr (trim s)"
| "call_trim JUndefined = Inl (TypeError_read JUndefined (Prop (ascii ''trim'')))"
| "call_trim JNull = Inl (TypeError_read JNull (Prop (ascii ''trim'')))"
| "call_trim v = Inl (TypeError_not_a_function (ascii ''suggestion.trim''))"

text \<open>The template literal of line 93.\<close>

definition prompt :: "jsstring \<Rightarrow> jsstring" where
  "prompt transcript = prompt_prefix @ transcript @ prompt_suffix"

text \<open>
  One \<open>generateContent\<close> call on the model named \<open>m\<close>: its outcome, and the
  call added to those made so far.
\<close>

definition call_generateContent ::
  "backend \<Rightarrow> jsstring \<Rightarrow> jsstring \<Rightarrow> (jsstring \<times> jsstring) list
     \<Rightarrow> (js_exn + js_value) \<times> (jsstring \<times> jsstring) list" where
  "call_generateContent generateContent m p calls = (generateContent m p, calls @ [(m, p)])"

text \<open>
  Lines 96 to 98: the statements of the \<open>try\<close> block up to the value given to
  \<open>res.json\<close>, with the calls made.
\<close>

definition try_suggestion ::
  "backend \<Rightarrow> jsstring \<Rightarrow> (js_exn + jsstring) \<times> (jsstring \<times> jsstring) list" where
  "try_suggestion generateContent p =
     (case call_generateContent generateContent (ascii ''gemini-2.5-flash'') p [] of
        (Inl e, calls) \<Rightarrow> (Inl e, calls)
      | (Inr result, calls) \<Rightarrow>
          (case get_path result (Prop (ascii ''response'') # Prop (ascii ''candidates'') # first_text) of
             Inl e \<Rightarrow> (Inl e, calls)
           | Inr suggestion \<Rightarrow> (call_trim suggestion, calls)))"

text \<open>
  The handler; its argument is \<open>req.body\<close>. Line 89 reads \<open>text\<close>, line 90 answers
  400 when it is falsy, line 93 builds the prompt, lines 95 to 102 call the backend and
  answer. \<open>res.json\<close> without \<open>res.status\<close> answers with status 200.
\<close>

definition suggest :: "host \<Rightarrow> backend \<Rightarrow> js_value \<Rightarrow> suggest_result" where
  "suggest h generateContent body =
     (case get_prop body (ascii ''text'') of
        Inl e \<Rightarrow> \<lparr>outcome = Unhandled e, generate_calls = [], console_out = []\<rparr>
      | Inr transcript \<Rightarrow>
          if \<not> truthy transcript
          then \<lparr>outcome = Responded 400 (JObj [(ascii ''error'', JStr (ascii ''No text''))]),
                generate_calls = [], console_out = []\<rparr>
          else
            (case ToString h transcript of
               Inl e \<Rightarrow> \<lparr>outcome = Unhandled e, generate_calls = [], console_out = []\<rparr>
             | Inr str \<Rightarrow>
                 (case try_suggestion generateContent (prompt str) of
                    (Inr suggestion, calls) \<Rightarrow>
                      \<lparr>outcome = Responded 200 (JObj [(ascii ''suggestion'', JStr suggestion)]),
                       generate_calls = calls, console_out = []\<rparr>
                  | (Inl error, calls) \<Rightarrow>
                      \<lparr>outcome =
                         (case exn_message h error of
                            Inl e \<Rightarrow> Unhandled e
                          | Inr m \<Rightarrow> Responded 500 (JObj [(ascii ''error'', m)])),
                       generate_calls = calls,
                       console_out = [LoggedError msg_suggest_error error]\<rparr>)))"

text \<open>The errors the engine raises as TypeError.\<close>

fun is_TypeError :: "js_exn \<Rightarrow> bool" where
  "is_TypeError (TypeError_read v a) = True"
| "is_TypeError (TypeError_not_a_function f) = True"
| "is_TypeError TypeError_to_primitive = True"
| "is_TypeError e = False"

section \<open>A host and values for the examples\<close>

text \<open>
  The wording of V8's error messages, the decimal numeral of an integer (the examples
  hold no other number), and a \<open>JSON.parse\<close> that reads the one text \<open>{}\<close> and
  rejects every other argument. The flag says whether the host binds the global
  \<open>WebSocket\<close>.
\<close>

fun v8_message :: "js_exn \<Rightarrow> jsstring" where
  "v8_message (TypeError_read v a) =
     ascii ''Cannot read properties of '' @ (if v = JNull then ascii ''null'' else ascii ''undefined'') @
     ascii '' (reading '' @ [0x27] @ (case a of Prop k \<Rightarrow> k | Index i \<Rightarrow> decimal i) @ [0x27] @ ascii '')''"
| "v8_message (TypeError_not_a_function f) = f @ ascii '' is not a function''"
| "v8_message TypeError_to_primitive = ascii ''Cannot convert object to primitive value''"
| "v8_message (ReferenceError n) = n @ ascii '' is not defined''"
| "v8_message (Thrown v) = []"

fun integer_text :: "js_number \<Rightarrow> jsstring" where
  "integer_text (Dyadic m e) =
     (if 0 \<le> e then (if m < 0 then ascii ''-'' else []) @ decimal (nat \<bar>m\<bar> * 2 ^ nat e) else [])"
| "integer_text NegZero = ascii ''0''"
| "integer_text NaN = ascii ''NaN''"
| "integer_text PosInfinity = ascii ''Infinity''"
| "integer_text NegInfinity = ascii ''-Infinity''"

definition parse_empty_object :: "js_value \<Rightarrow> js_exn + js_value" where
  "parse_empty_object v =
     (if v = JStr (ascii ''{}'') then Inr (JObj [])
      else Inl (Thrown (JObj [(ascii ''message'', JStr (ascii ''Unexpected token''))])))"

definition node_host :: "bool \<Rightarrow> host" where
  "node_host has_WebSocket =
     \<lparr>Number_toString = integer_text, engine_message = v8_message,
      global_WebSocket = has_WebSocket, JSON_parse = parse_empty_object\<rparr>"

text \<open>
  A request body \<open>{"text": v}\<close>; a backend result and a stream item whose first
  candidate's first part has the text \<open>v\<close>; an Error with a message, thrown by the
  backend library; an environment given by its variables.
\<close>

definition text_body :: "js_value \<Rightarrow> js_value" where
  "text_body v = JObj [(ascii ''text'', v)]"

definition text_item :: "js_value \<Rightarrow> js_value" where
  "text_item v =
     JObj [(ascii ''candidates'',
       JArr [JObj [(ascii ''content'', JObj [(ascii ''parts'', JArr [JObj [(ascii ''text'', v)]])])]])]"

definition text_result :: "js_value \<Rightarrow> js_value" where
  "text_result v = JObj [(ascii ''response'', text_item v)]"

definition backend_error :: "jsstring \<Rightarrow> js_exn" where
  "backend_error m = Thrown (JObj [(ascii ''message'', JStr m)])"

definition example_env :: "(string \<times> string) list \<Rightarrow> environment" where
  "example_env vars = map_of (map (\<lambda>(k, v). (ascii k, ascii v)) vars)"

section \<open>Facts about the values\<close>

lemma rev_dropWhile_takeWhile:
  "rev (dropWhile P (rev u)) @ rev (takeWhile P (rev u)) = u"
  by (metis rev_append rev_rev_ident takeWhile_dropWhile_id)

text \<open>\<open>trim\<close> removes white space at both ends and nothing else.\<close>

lemma trim_decomp:
  "\<exists>a b. t = a @ trim t @ b \<and> (\<forall>c\<in>set a. is_whitespace c) \<and> (\<forall>c\<in>set b. is_whitespace c)"
proof -
  define u where "u = dropWhile is_whitespace t"
  have t: "t = takeWhile is_whitespace t @ u"
    by (simp add: u_def)
  have u: "u = trim t @ rev (takeWhile is_whitespace (rev u))"
    unfolding trim_def u_def by (simp only: rev_dropWhile_takeWhile)
  have a: "\<forall>c\<in>set (takeWhile is_whitespace t). is_whitespace c"
    by (auto dest: set_takeWhileD)
  have b: "\<forall>c\<in>set (rev (takeWhile is_whitespace (rev u))). is_whitespace c"
    by (auto dest: set_takeWhileD)
  from t u have "t = takeWhile is_whitespace t @ trim t @ rev (takeWhile is_whitespace (rev u))"
    by simp
  with a b show ?thesis by blast
qed

lemma trim_last: "trim t \<noteq> [] \<Longrightarrow> \<not> is_whitespace (last (trim t))"
  by (simp add: trim_def last_rev hd_dropWhile)

lemma trim_hd: "trim t \<noteq> [] \<Longrightarrow> \<not> is_whitespace (hd (trim t))"
proof -
  assume ne: "trim t \<noteq> []"
  define u where "u = dropWhile is_whitespace t"
  have u: "u = trim t @ rev (takeWhile is_whitespace (rev u))"
    unfolding trim_def u_def by (simp only: rev_dropWhile_takeWhile)
  with ne have "u \<noteq> []" by auto
  then have "\<not> is_whitespace (hd u)"
    unfolding u_def by (rule hd_dropWhile)
  moreover from u ne have "hd u = hd (trim t)"
    by (metis hd_append2)
  ultimately show ?thesis by simp
qed

text \<open>Every error of a property access is a TypeError of the engine.\<close>

lemma get_prop_Inl: "get_prop v k = Inl e \<Longrightarrow> is_TypeError e"
  by (cases v) auto

lemma get_index_Inl: "get_index v i = Inl e \<Longrightarrow> is_TypeError e"
  by (cases v) auto

lemma get_access_Inl: "get_access v a = Inl e \<Longrightarrow> is_TypeError e"
  by (cases a) (auto dest: get_prop_Inl get_index_Inl)

lemma get_path_Inl: "get_path v p = Inl e \<Longrightarrow> is_TypeError e"
  by (induction p arbitrary: v) (auto split: sum.splits dest: get_access_Inl)

lemma call_trim_Inl: "(\<forall>t. v \<noteq> JStr t) \<Longrightarrow> \<exists>e. call_trim v = Inl e \<and> is_TypeError e"
  by (cases v) auto

lemma engine_exn_message: "is_TypeError e \<Longrightarrow> exn_message h e = Inr (JStr (engine_message h e))"
  by (cases e) (auto simp: exn_message_def)

text \<open>Where an optional chain answers a truthy value, the plain chain answers the same.\<close>

lemma get_path_opt_truthy:
  "get_path_opt v p = Inr t \<Longrightarrow> truthy t \<Longrightarrow> get_path v p = Inr t"
proof (induction p arbitrary: v)
  case Nil
  then show ?case by simp
next
  case (Cons a p)
  show ?case
  proof (cases "nullish v")
    case True
    with Cons.prems show ?thesis by auto
  next
    case False
    with Cons.prems obtain w where w: "get_access v a = Inr w" and "get_path_opt w p = Inr t"
      by (auto split: sum.splits)
    with Cons.IH [of w] Cons.prems(2) show ?thesis by simp
  qed
qed

lemma item_text_truthy:
  assumes "item_text item = Inr t" and "truthy t"
  shows "get_path item (Prop (ascii ''candidates'') # first_text) = Inr t"
  using assms by (auto simp: item_text_def split: sum.splits intro: get_path_opt_truthy)

section \<open>The suggestion endpoint\<close>

text \<open>With a non-empty string as \<open>text\<close> the handler reaches the \<open>try\<close> block.\<close>

lemma suggest_valid_string:
  assumes "map_of kvs (ascii ''text'') = Some (JStr s)" and "s \<noteq> []"
  shows "suggest h g (JObj kvs) =
     (case try_suggestion g (prompt s) of
        (Inr suggestion, calls) \<Rightarrow>
          \<lparr>outcome = Responded 200 (JObj [(ascii ''suggestion'', JStr suggestion)]),
           generate_calls = calls, console_out = []\<rparr>
      | (Inl error, calls) \<Rightarrow>
          \<lparr>outcome =
             (case exn_message h error of
                Inl e \<Rightarrow> Unhandled e
              | Inr m \<Rightarrow> Responded 500 (JObj [(ascii ''error'', m)])),
           generate_calls = calls,
           console_out = [LoggedError msg_suggest_error error]\<rparr>)"
  using assms by (simp add: suggest_def)

lemma try_suggestion_calls:
  "snd (try_suggestion g p) = [(ascii ''gemini-2.5-flash'', p)]"
  by (simp add: try_suggestion_def call_generateContent_def split: sum.splits)

text \<open>
  C4. A request whose body has the non-empty string \<open>s\<close> as \<open>text\<close>: the handler calls
  \<open>generateContent\<close> exactly once, on the model gemini-2.5-flash, with the prompt
  that is the template's prefix, then \<open>s\<close> unchanged, then the template's suffix. When
  the call resolves with a result whose first candidate's first part has the string
  \<open>t\<close> as text, the response is status 200 with the body \<open>{suggestion: trim t}\<close>,
  and \<open>trim t\<close> is \<open>t\<close> without the white space at its two ends.
\<close>

theorem suggest_valid_text:
  assumes "map_of kvs (ascii ''text'') = Some (JStr s)" and "s \<noteq> []"
  shows "generate_calls (suggest h g (JObj kvs)) = [(ascii ''gemini-2.5-flash'', prompt_prefix @ s @ prompt_suffix)]
       \<and> (\<forall>result t.
             g (ascii ''gemini-2.5-flash'') (prompt_prefix @ s @ prompt_suffix) = Inr result \<and>
             get_path result (Prop (ascii ''response'') # Prop (ascii ''candidates'') # first_text) = Inr (JStr t)
             \<longrightarrow> outcome (suggest h g (JObj kvs)) = Responded 200 (JObj [(ascii ''suggestion'', JStr (trim t))])
               \<and> (\<exists>a b. t = a @ trim t @ b \<and> (\<forall>c\<in>set a. is_whitespace c) \<and> (\<forall>c\<in>set b. is_whitespace c))
               \<and> (trim t \<noteq> [] \<longrightarrow> \<not> is_whitespace (hd (trim t)) \<and> \<not> is_whitespace (last (trim t))))"
proof (intro conjI allI impI)
  show "generate_calls (suggest h g (JObj kvs)) = [(ascii ''gemini-2.5-flash'', prompt_prefix @ s @ prompt_suffix)]"
    using suggest_valid_string [OF assms, of h g] try_suggestion_calls [of g "prompt s"]
    by (simp add: prompt_def split: prod.splits sum.splits)
next
  fix result t
  assume ok: "g (ascii ''gemini-2.5-flash'') (prompt_prefix @ s @ prompt_suffix) = Inr result \<and>
     get_path result (Prop (ascii ''response'') # Prop (ascii ''candidates'') # first_text) = Inr (JStr t)"
  then have "try_suggestion g (prompt s) = (Inr (trim t), [(ascii ''gemini-2.5-flash'', prompt s)])"
    by (simp add: try_suggestion_def call_generateContent_def prompt_def)
  then show "outcome (suggest h g (JObj kvs)) = Responded 200 (JObj [(ascii ''suggestion'', JStr (trim t))])"
    using suggest_valid_string [OF assms, of h g] by simp
  show "\<exists>a b. t = a @ trim t @ b \<and> (\<forall>c\<in>set a. is_whitespace c) \<and> (\<forall>c\<in>set b. is_whitespace c)"
    by (rule trim_decomp)
  show "\<not> is_whitespace (hd (trim t))" if "trim t \<noteq> []"
    using that by (rule trim_hd)
  show "\<not> is_whitespace (last (trim t))" if "trim t \<noteq> []"
    using that by (rule trim_last)
qed

theorem suggest_valid_text_witness:
  "generate_calls (suggest (node_host True) (\<lambda>m p. Inr (text_result (JStr (ascii '' a b ''))))
       (text_body (JStr (ascii ''hi''))))
     = [(ascii ''gemini-2.5-flash'', prompt_prefix @ ascii ''hi'' @ prompt_suffix)]
   \<and> outcome (suggest (node_host True) (\<lambda>m p. Inr (text_result (JStr (ascii '' a b ''))))
       (text_body (JStr (ascii ''hi''))))
     = Responded 200 (JObj [(ascii ''suggestion'', JStr (ascii ''a b''))])"
proof -
  have t: "trim (ascii '' a b '') = ascii ''a b''"
    by (simp add: trim_def is_whitespace_def ascii_def)
  have p: "get_path (text_result (JStr (ascii '' a b '')))
      (Prop (ascii ''response'') # Prop (ascii ''candidates'') # first_text) = Inr (JStr (ascii '' a b ''))"
    by (simp add: text_result_def text_item_def first_text_def ascii_def)
  have k: "map_of [(ascii ''text'', JStr (ascii ''hi''))] (ascii ''text'') = Some (JStr (ascii ''hi''))"
    by simp
  have n: "ascii ''hi'' \<noteq> []"
    by (simp add: ascii_def)
  show ?thesis
    using suggest_valid_text [OF k n, of "node_host True" "\<lambda>m p. Inr (text_result (JStr (ascii '' a b '')))"] p t
    by (simp add: text_body_def)
qed

text \<open>
  C5. A request whose body has no \<open>text\<close>, or the empty string as \<open>text\<close>: the
  response is status 400 with the body \<open>{error: 'No text'}\<close>, and \<open>generateContent\<close>
  is not called.
\<close>

theorem suggest_no_text:
  assumes "map_of kvs (ascii ''text'') = None \<or> map_of kvs (ascii ''text'') = Some (JStr [])"
  shows "suggest h g (JObj kvs) =
     \<lparr>outcome = Responded 400 (JObj [(ascii ''error'', JStr (ascii ''No text''))]),
      generate_calls = [], console_out = []\<rparr>"
  using assms by (auto simp: suggest_def)

theorem suggest_no_text_witness:
  "suggest (node_host True) (\<lambda>m p. Inr (text_result (JStr (ascii ''unused'')))) (JObj []) =
     \<lparr>outcome = Responded 400 (JObj [(ascii ''error'', JStr (ascii ''No text''))]),
      generate_calls = [], console_out = []\<rparr>
   \<and> suggest (node_host True) (\<lambda>m p. Inr (text_result (JStr (ascii ''unused'')))) (text_body (JStr [])) =
     \<lparr>outcome = Responded 400 (JObj [(ascii ''error'', JStr (ascii ''No text''))]),
      generate_calls = [], console_out = []\<rparr>"
proof -
  have a: "map_of [] (ascii ''text'') = (None :: js_value option)
      \<or> map_of [] (ascii ''text'') = Some (JStr [])"
    by simp
  have b: "map_of [(ascii ''text'', JStr [])] (ascii ''text'') = None
      \<or> map_of [(ascii ''text'', JStr [])] (ascii ''text'') = Some (JStr [])"
    by simp
  show ?thesis
    unfolding text_body_def
    by (intro conjI; rule suggest_no_text) (rule a, rule b)
qed

text \<open>
  C6. A request with a non-empty string as \<open>text\<close>, and a \<open>generateContent\<close> call
  that rejects with an error whose \<open>message\<close> is \<open>m\<close>: the response is status 500
  with the body \<open>{error: m}\<close>, and \<open>generateContent\<close> was called exactly once.
\<close>

theorem suggest_backend_failure:
  assumes "map_of kvs (ascii ''text'') = Some (JStr s)" and "s \<noteq> []"
    and "g (ascii ''gemini-2.5-flash'') (prompt_prefix @ s @ prompt_suffix) = Inl (Thrown err)"
    and "get_prop err (ascii ''message'') = Inr m"
  shows "outcome (suggest h g (JObj kvs)) = Responded 500 (JObj [(ascii ''error'', m)])
       \<and> generate_calls (suggest h g (JObj kvs)) = [(ascii ''gemini-2.5-flash'', prompt_prefix @ s @ prompt_suffix)]"
proof -
  have "try_suggestion g (prompt s) = (Inl (Thrown err), [(ascii ''gemini-2.5-flash'', prompt s)])"
    using assms(3) by (simp add: try_suggestion_def call_generateContent_def prompt_def)
  then show ?thesis
    using suggest_valid_string [OF assms(1,2), of h g] assms(4)
    by (simp add: exn_message_def prompt_def)
qed

theorem suggest_backend_failure_witness:
  "outcome (suggest (node_host True) (\<lambda>m p. Inl (backend_error (ascii ''quota exceeded'')))
       (text_body (JStr (ascii ''hi''))))
     = Responded 500 (JObj [(ascii ''error'', JStr (ascii ''quota exceeded''))])
   \<and> generate_calls (suggest (node_host True) (\<lambda>m p. Inl (backend_error (ascii ''quota exceeded'')))
       (text_body (JStr (ascii ''hi''))))
     = [(ascii ''gemini-2.5-flash'', prompt_prefix @ ascii ''hi'' @ prompt_suffix)]"
proof -
  have k: "map_of [(ascii ''text'', JStr (ascii ''hi''))] (ascii ''text'') = Some (JStr (ascii ''hi''))"
    by simp
  have n: "ascii ''hi'' \<noteq> []"
    by (simp add: ascii_def)
  have g: "(\<lambda>m p. Inl (backend_error (ascii ''quota exceeded''))) (ascii ''gemini-2.5-flash'')
      (prompt_prefix @ ascii ''hi'' @ prompt_suffix) = Inl (Thrown (JObj [(ascii ''message'', JStr (ascii ''quota exceeded''))]))"
    by (simp add: backend_error_def)
  have m: "get_prop (JObj [(ascii ''message'', JStr (ascii ''quota exceeded''))]) (ascii ''message'')
      = Inr (JStr (ascii ''quota exceeded''))"
    by simp
  show ?thesis
    unfolding text_body_def
    by (rule suggest_backend_failure [OF k n g m])
qed

text \<open>
  C10. A request with a non-empty string as \<open>text\<close>, and a \<open>generateContent\<close> call
  that resolves with a result in which \<open>response.candidates[0].content.parts[0].text\<close>
  is not a string, because an access on the way throws or because the value found is
  no string: a TypeError is raised inside the \<open>try\<close> block (by the accesses of line
  97 or by \<open>suggestion.trim()\<close> of line 98), and the response is status 500 with the
  body \<open>{error: message of that TypeError}\<close>, as for a failure of the backend;
  \<open>generateContent\<close> was called exactly once.
\<close>

theorem suggest_no_text_in_result:
  assumes "map_of kvs (ascii ''text'') = Some (JStr s)" and "s \<noteq> []"
    and "g (ascii ''gemini-2.5-flash'') (prompt_prefix @ s @ prompt_suffix) = Inr result"
    and "\<forall>t. get_path result (Prop (ascii ''response'') # Prop (ascii ''candidates'') # first_text) \<noteq> Inr (JStr t)"
  shows "\<exists>e. is_TypeError e
       \<and> fst (try_suggestion g (prompt_prefix @ s @ prompt_suffix)) = Inl e
       \<and> outcome (suggest h g (JObj kvs)) = Responded 500 (JObj [(ascii ''error'', JStr (engine_message h e))])
       \<and> generate_calls (suggest h g (JObj kvs)) = [(ascii ''gemini-2.5-flash'', prompt_prefix @ s @ prompt_suffix)]"
proof -
  let ?p = "Prop (ascii ''response'') # Prop (ascii ''candidates'') # first_text"
  have "\<exists>e. is_TypeError e \<and>
      try_suggestion g (prompt s) = (Inl e, [(ascii ''gemini-2.5-flash'', prompt s)])"
  proof (cases "get_path result ?p")
    case (Inl e)
    then have "is_TypeError e" by (rule get_path_Inl)
    with Inl assms(3) show ?thesis
      by (simp add: try_suggestion_def call_generateContent_def prompt_def)
  next
    case (Inr v)
    with assms(4) have "\<forall>t. v \<noteq> JStr t" by auto
    then obtain e where "call_trim v = Inl e" and "is_TypeError e"
      using call_trim_Inl by blast
    with Inr assms(3) show ?thesis
      by (simp add: try_suggestion_def call_generateContent_def prompt_def)
  qed
  then obtain e where e: "is_TypeError e"
    and t: "try_suggestion g (prompt s) = (Inl e, [(ascii ''gemini-2.5-flash'', prompt s)])"
    by blast
  from t e have "outcome (suggest h g (JObj kvs)) = Responded 500 (JObj [(ascii ''error'', JStr (engine_message h e))])
     \<and> generate_calls (suggest h g (JObj kvs)) = [(ascii ''gemini-2.5-flash'', prompt s)]"
    using suggest_valid_string [OF assms(1,2), of h g] by (simp add: engine_exn_message)
  with e t show ?thesis
    by (auto simp: prompt_def)
qed

theorem suggest_no_text_in_result_witness:
  "outcome (suggest (node_host True) (\<lambda>m p. Inr (JObj [(ascii ''response'', JObj [(ascii ''candidates'', JArr [])])]))
       (text_body (JStr (ascii ''hi''))))
     = Responded 500 (JObj [(ascii ''error'',
         JStr (ascii ''Cannot read properties of undefined (reading '' @ [0x27] @ ascii ''content'' @ [0x27] @ ascii '')''))])"
proof -
  let ?r = "JObj [(ascii ''response'', JObj [(ascii ''candidates'', JArr [])])]"
  let ?g = "\<lambda>m p. (Inr ?r :: js_exn + js_value)"
  have k: "map_of [(ascii ''text'', JStr (ascii ''hi''))] (ascii ''text'') = Some (JStr (ascii ''hi''))"
    by simp
  have n: "ascii ''hi'' \<noteq> []"
    by (simp add: ascii_def)
  have g: "?g (ascii ''gemini-2.5-flash'') (prompt_prefix @ ascii ''hi'' @ prompt_suffix) = Inr ?r"
    by simp
  have p: "get_path ?r (Prop (ascii ''response'') # Prop (ascii ''candidates'') # first_text)
      = Inl (TypeError_read JUndefined (Prop (ascii ''content'')))"
    by (simp add: first_text_def ascii_def)
  then have np: "\<forall>t. get_path ?r (Prop (ascii ''response'') # Prop (ascii ''candidates'') # first_text) \<noteq> Inr (JStr t)"
    by simp
  have t: "fst (try_suggestion ?g (prompt_prefix @ ascii ''hi'' @ prompt_suffix))
      = Inl (TypeError_read JUndefined (Prop (ascii ''content'')))"
    using p by (simp add: try_suggestion_def call_generateContent_def)
  show ?thesis
    using suggest_no_text_in_result [OF k n g np, of "node_host True"] t
    by (auto simp: text_body_def node_host_def ascii_def)
qed




section \<open>Startup\<close>

text \<open>
  C7. When \<open>GOOGLE_PROJECT_ID\<close> or \<open>GOOGLE_CREDENTIALS_JSON\<close> is not set, all the
  module does is write the diagnostic with \<open>console.error\<close> and then exit with status
  1: no listener is bound. \<open>GOOGLE_LOCATION\<close> is optional: when it is not set the
  location is \<open>asia-northeast1\<close>, and with the two required variables set (and the
  credentials parsed) the module builds the client with that location and binds the
  listener.
\<close>

theorem startup_requires_configuration:
  "(env (ascii ''GOOGLE_PROJECT_ID'') = None \<or> env (ascii ''GOOGLE_CREDENTIALS_JSON'') = None
      \<longrightarrow> startup h env = [ConsoleError msg_config_missing, ProcessExit 1]
        \<and> \<not> list_ex is_listen (startup h env))
   \<and> (env (ascii ''GOOGLE_LOCATION'') = None \<longrightarrow> LOCATION env = JStr (ascii ''asia-northeast1''))
   \<and> (\<forall>p c credentials.
         env (ascii ''GOOGLE_PROJECT_ID'') = Some p \<and> p \<noteq> [] \<and>
         env (ascii ''GOOGLE_CREDENTIALS_JSON'') = Some c \<and> c \<noteq> [] \<and>
         JSON_parse h (JStr c) = Inr credentials
         \<longrightarrow> startup h env = [NewVertexAI (JStr p) (LOCATION env) credentials, ServerListen (PORT env)])"
  by (auto simp: startup_def PROJECT_ID_def CREDENTIALS_JSON_def LOCATION_def getenv_def or_else_def)

theorem startup_requires_configuration_witness:
  "startup (node_host True) (example_env [(''GOOGLE_CREDENTIALS_JSON'', ''{}'')])
      = [ConsoleError msg_config_missing, ProcessExit 1]
   \<and> startup (node_host True) (example_env [(''GOOGLE_PROJECT_ID'', ''broadster'')])
      = [ConsoleError msg_config_missing, ProcessExit 1]
   \<and> startup (node_host True) (example_env [(''GOOGLE_PROJECT_ID'', ''broadster''), (''GOOGLE_CREDENTIALS_JSON'', ''{}'')])
      = [NewVertexAI (JStr (ascii ''broadster'')) (JStr (ascii ''asia-northeast1'')) (JObj []),
         ServerListen (JNum (Dyadic 3000 0))]"
proof -
  let ?e1 = "example_env [(''GOOGLE_CREDENTIALS_JSON'', ''{}'')]"
  let ?e2 = "example_env [(''GOOGLE_PROJECT_ID'', ''broadster'')]"
  let ?e3 = "example_env [(''GOOGLE_PROJECT_ID'', ''broadster''), (''GOOGLE_CREDENTIALS_JSON'', ''{}'')]"
  have 1: "?e1 (ascii ''GOOGLE_PROJECT_ID'') = None"
    by (simp add: example_env_def ascii_def)
  have 2: "?e2 (ascii ''GOOGLE_CREDENTIALS_JSON'') = None"
    by (simp add: example_env_def ascii_def)
  have 3: "?e3 (ascii ''GOOGLE_PROJECT_ID'') = Some (ascii ''broadster'') \<and> ascii ''broadster'' \<noteq> []
      \<and> ?e3 (ascii ''GOOGLE_CREDENTIALS_JSON'') = Some (ascii ''{}'') \<and> ascii ''{}'' \<noteq> []
      \<and> JSON_parse (node_host True) (JStr (ascii ''{}'')) = Inr (JObj [])
      \<and> ?e3 (ascii ''GOOGLE_LOCATION'') = None \<and> ?e3 (ascii ''PORT'') = None"
    by (simp add: example_env_def ascii_def node_host_def parse_empty_object_def)
  then have 4: "LOCATION ?e3 = JStr (ascii ''asia-northeast1'')" and 5: "PORT ?e3 = JNum (Dyadic 3000 0)"
    using startup_requires_configuration [of ?e3 "node_host True"]
    by (simp_all add: PORT_def getenv_def or_else_def)
  show ?thesis
    using startup_requires_configuration [of ?e1 "node_host True"] 1
      startup_requires_configuration [of ?e2 "node_host True"] 2
      startup_requires_configuration [of ?e3 "node_host True"] 3 4 5
    by simp
qed

section \<open>The relay\<close>

subsection \<open>What no event changes\<close>

lemma on_stream_item_backend_calls: "backend_calls (on_stream_item h s item) = backend_calls s"
  by (simp add: on_stream_item_def stream_catch_def console_error_def ws_send_def
      split: sum.splits)

lemma on_stream_item_ws_close_calls: "ws_close_calls (on_stream_item h s item) = ws_close_calls s"
  by (simp add: on_stream_item_def stream_catch_def console_error_def ws_send_def
      split: sum.splits)

lemma step_backend_calls: "backend_calls (step h s ev) = backend_calls s"
  by (cases ev)
    (simp_all add: on_message_def on_close_def console_log_def stream_catch_def console_error_def
      on_stream_item_backend_calls Let_def)

lemma step_ws_close_calls: "ws_close_calls (step h s ev) = ws_close_calls s"
  by (cases ev)
    (simp_all add: on_message_def on_close_def console_log_def stream_catch_def console_error_def
      on_stream_item_ws_close_calls Let_def)

lemma run_backend_calls: "backend_calls (run h s evs) = backend_calls s"
  unfolding run_def by (induction evs arbitrary: s) (simp_all add: step_backend_calls)

lemma run_ws_close_calls: "ws_close_calls (run h s evs) = ws_close_calls s"
  unfolding run_def by (induction evs arbitrary: s) (simp_all add: step_ws_close_calls)

text \<open>Once the downstream loop is not running, nothing is sent any more.\<close>

lemma step_not_running:
  "\<not> downstream_running s \<Longrightarrow> \<not> downstream_running (step h s ev) \<and> ws_sent (step h s ev) = ws_sent s"
  by (cases ev) (simp_all add: on_message_def on_close_def console_log_def Let_def)

lemma run_not_running:
  "\<not> downstream_running s \<Longrightarrow> ws_sent (run h s evs) = ws_sent s"
  unfolding run_def
proof (induction evs arbitrary: s)
  case Nil
  then show ?case by simp
next
  case (Cons ev evs)
  from Cons.prems have "\<not> downstream_running (step h s ev)" and "ws_sent (step h s ev) = ws_sent s"
    using step_not_running by blast+
  with Cons.IH [of "step h s ev"] show ?case by simp
qed

lemma on_connection_opened:
  "on_connection StreamOpened =
     \<lparr>ws_readyState = OPEN, ws_sent = [], ws_close_calls = [],
      backend_calls = [StartChat, SendMessageStream []],
      console = [Logged msg_client_connected, Logged msg_stream_started],
      downstream_running = True, message_handler = True, close_handler = True\<rparr>"
  by (simp add: on_connection_def connection_handler_def accepted_def console_log_def)

subsection \<open>Upstream\<close>

text \<open>
  C1, as the claim states it, fails: in a session whose backend stream is open and
  whose message listener is registered, a binary frame from the browser leaves the
  calls made on the backend as they were after the connection was set up. Nothing is
  forwarded.
\<close>

theorem inbound_frame_counterexample:
  "message_handler (on_connection StreamOpened)
   \<and> ws_readyState (on_connection StreamOpened) = OPEN
   \<and> backend_calls (step (node_host True) (on_connection StreamOpened) (BrowserMessage [0x52, 0x49, 0x46, 0x46]))
       = [StartChat, SendMessageStream []]"
  by (simp add: on_connection_opened on_message_def)

text \<open>
  C1, amended. For every inbound WebSocket frame the message handler does nothing: the
  session is left exactly as it was, no call is made on the backend and no encoding is
  applied. Whatever the events of a session, the only calls made on the backend are
  \<open>startChat\<close> and \<open>sendMessageStream('')\<close> of the connection setup.
\<close>

theorem inbound_frame_is_dropped:
  "step h s (BrowserMessage message) = s
   \<and> backend_calls (run h (on_connection StreamOpened) evs) = [StartChat, SendMessageStream []]"
  by (simp add: on_message_def run_backend_calls on_connection_opened)

theorem inbound_frame_is_dropped_witness:
  "step (node_host True) (on_connection StreamOpened) (BrowserMessage [0x52, 0x49, 0x46, 0x46]) = on_connection StreamOpened
   \<and> backend_calls (run (node_host True) (on_connection StreamOpened)
        [BrowserMessage [0x52, 0x49], BrowserMessage [0x46, 0x46], BrowserClose])
      = [StartChat, SendMessageStream []]"
  by (rule inbound_frame_is_dropped)

subsection \<open>Teardown\<close>

text \<open>
  C2, as the claim states it, fails in both directions: after the browser closes, the
  downstream loop is still reading the backend stream and no call was made on the
  backend; after the backend stream ends, the socket is still open and \<open>ws.close\<close>
  was not called.
\<close>

theorem teardown_counterexample:
  "downstream_running (step (node_host True) (on_connection StreamOpened) BrowserClose)
   \<and> backend_calls (step (node_host True) (on_connection StreamOpened) BrowserClose) = [StartChat, SendMessageStream []]
   \<and> ws_readyState (step (node_host True) (on_connection StreamOpened) StreamEnd) = OPEN
   \<and> ws_close_calls (step (node_host True) (on_connection StreamOpened) StreamEnd) = []"
  by (simp add: on_connection_opened on_close_def console_log_def)

text \<open>
  C2, amended. When either endpoint closes, the handler leaves the other as it is. The
  browser's closing is only logged: the socket is CLOSED, the close listener adds its
  line to the console, and nothing else of the session changes, so no call is made on
  the backend and the downstream loop keeps reading the stream. The end of the backend
  stream ends the downstream loop and changes nothing else. An error of the backend
  stream, while the loop runs, is logged and ends the loop, and changes nothing else.
  So the state of the socket is unchanged by the stream's end or error; in a session
  whose backend stream was opened the handler never calls \<open>ws.close\<close>, and makes no
  call on the backend after the connection setup.
\<close>

theorem teardown_leaves_counterpart:
  "step h s BrowserClose =
      s\<lparr>ws_readyState := CLOSED,
        console := console s @ (if close_handler s then [Logged msg_client_disconnected] else [])\<rparr>
   \<and> step h s StreamEnd = s\<lparr>downstream_running := False\<rparr>
   \<and> step h s (StreamError e) =
      (if downstream_running s
       then s\<lparr>console := console s @ [LoggedError msg_stream_receive_error e],
              downstream_running := False\<rparr>
       else s)
   \<and> downstream_running (step h s BrowserClose) = downstream_running s
   \<and> backend_calls (step h s BrowserClose) = backend_calls s
   \<and> ws_readyState (step h s StreamEnd) = ws_readyState s
   \<and> ws_readyState (step h s (StreamError e)) = ws_readyState s
   \<and> \<not> downstream_running (step h s StreamEnd)
   \<and> \<not> downstream_running (step h s (StreamError e))
   \<and> ws_close_calls (run h (on_connection StreamOpened) evs) = []
   \<and> backend_calls (run h (on_connection StreamOpened) evs) = [StartChat, SendMessageStream []]"
proof -
  have close: "step h s BrowserClose =
      s\<lparr>ws_readyState := CLOSED,
        console := console s @ (if close_handler s then [Logged msg_client_disconnected] else [])\<rparr>"
    by (simp add: on_close_def console_log_def Let_def)
  have ended: "step h s StreamEnd = s\<lparr>downstream_running := False\<rparr>"
    by simp
  have failed: "step h s (StreamError e) =
      (if downstream_running s
       then s\<lparr>console := console s @ [LoggedError msg_stream_receive_error e],
              downstream_running := False\<rparr>
       else s)"
    by (simp add: stream_catch_def console_error_def)
  have calls: "ws_close_calls (run h (on_connection StreamOpened) evs) = []
      \<and> backend_calls (run h (on_connection StreamOpened) evs) = [StartChat, SendMessageStream []]"
    by (simp add: run_ws_close_calls run_backend_calls on_connection_opened)
  have rest: "downstream_running (step h s BrowserClose) = downstream_running s
      \<and> backend_calls (step h s BrowserClose) = backend_calls s
      \<and> ws_readyState (step h s StreamEnd) = ws_readyState s
      \<and> ws_readyState (step h s (StreamError e)) = ws_readyState s
      \<and> \<not> downstream_running (step h s StreamEnd)
      \<and> \<not> downstream_running (step h s (StreamError e))"
    by (simp add: on_close_def console_log_def stream_catch_def console_error_def Let_def)
  from close ended failed rest calls show ?thesis
    by blast
qed

theorem teardown_leaves_counterpart_witness:
  "step (node_host True) (on_connection StreamOpened) BrowserClose =
      (on_connection StreamOpened)\<lparr>ws_readyState := CLOSED,
        console := [Logged msg_client_connected, Logged msg_stream_started, Logged msg_client_disconnected]\<rparr>
   \<and> step (node_host True) (on_connection StreamOpened) StreamEnd =
      (on_connection StreamOpened)\<lparr>downstream_running := False\<rparr>
   \<and> step (node_host True) (on_connection StreamOpened) (StreamError (backend_error (ascii ''reset''))) =
      (on_connection StreamOpened)\<lparr>
        console := [Logged msg_client_connected, Logged msg_stream_started,
                    LoggedError msg_stream_receive_error (backend_error (ascii ''reset''))],
        downstream_running := False\<rparr>
   \<and> ws_close_calls (run (node_host True) (on_connection StreamOpened) [StreamError (backend_error (ascii ''reset'')), BrowserClose]) = []
   \<and> backend_calls (run (node_host True) (on_connection StreamOpened) [StreamError (backend_error (ascii ''reset'')), BrowserClose])
       = [StartChat, SendMessageStream []]"
  using teardown_leaves_counterpart [of "node_host True" "on_connection StreamOpened"
      "backend_error (ascii ''reset'')" "[StreamError (backend_error (ascii ''reset'')), BrowserClose]"]
  by (simp add: on_connection_opened)

subsection \<open>Failure to open the backend session\<close>

text \<open>
  C8, as the claim states it, fails: when \<open>startChat\<close> throws, the one \<open>ws.close\<close>
  call of the handler passes no close code, so no error status is given.
\<close>

theorem open_failure_counterexample:
  "ws_close_calls (on_connection (StartChatThrows (backend_error (ascii ''denied'')))) = [None]"
  by (simp add: on_connection_def connection_handler_def accepted_def console_log_def console_error_def ws_close_def)

text \<open>
  C8, amended. For every new connection, if opening the backend session fails
  (\<open>startChat\<close> throws or \<open>sendMessageStream\<close> rejects), the handler logs the error
  with \<open>console.error\<close> (after the line that says a client connected, and after the
  line that says the session started when it is \<open>sendMessageStream\<close> that failed) and
  calls \<open>ws.close()\<close> once, with no close code. That starts the closing of a socket
  that is still open; a socket that the browser closed while the session was being
  opened stays as it is. No downstream loop is started and no message listener is
  registered; and whatever happens afterwards, nothing is sent to the browser and no
  further call is made on the backend, so no forwarding in either direction is
  performed for that session. \<open>st\<close> is the state of the socket when the \<open>catch\<close>
  block runs.
\<close>

theorem open_failure_closes_socket:
  assumes "r = StartChatThrows e \<or> r = SendMessageStreamRejects e"
  shows "ws_close_calls (connection_handler st r) = [None]
       \<and> ws_readyState (connection_handler st r) = (if st = OPEN then CLOSING else st)
       \<and> console (connection_handler st r) =
            (if r = StartChatThrows e
             then [Logged msg_client_connected, LoggedError msg_connect_error e]
             else [Logged msg_client_connected, Logged msg_stream_started, LoggedError msg_connect_error e])
       \<and> backend_calls (connection_handler st r) =
            (if r = StartChatThrows e then [StartChat] else [StartChat, SendMessageStream []])
       \<and> \<not> downstream_running (connection_handler st r)
       \<and> \<not> message_handler (connection_handler st r)
       \<and> close_handler (connection_handler st r)
       \<and> ws_sent (run h (connection_handler st r) evs) = []
       \<and> backend_calls (run h (connection_handler st r) evs) = backend_calls (connection_handler st r)
       \<and> ws_close_calls (run h (connection_handler st r) evs) = [None]"
proof -
  from assms have s: "ws_close_calls (connection_handler st r) = [None]
       \<and> ws_readyState (connection_handler st r) = (if st = OPEN then CLOSING else st)
       \<and> console (connection_handler st r) =
            (if r = StartChatThrows e
             then [Logged msg_client_connected, LoggedError msg_connect_error e]
             else [Logged msg_client_connected, Logged msg_stream_started, LoggedError msg_connect_error e])
       \<and> backend_calls (connection_handler st r) =
            (if r = StartChatThrows e then [StartChat] else [StartChat, SendMessageStream []])
       \<and> \<not> downstream_running (connection_handler st r)
       \<and> \<not> message_handler (connection_handler st r)
       \<and> close_handler (connection_handler st r)
       \<and> ws_sent (connection_handler st r) = []"
    by (auto simp: connection_handler_def accepted_def console_log_def console_error_def ws_close_def)
  then have "ws_sent (run h (connection_handler st r) evs) = []"
    using run_not_running [of "connection_handler st r" h evs] by simp
  with s show ?thesis
    by (simp add: run_backend_calls run_ws_close_calls)
qed

theorem open_failure_closes_socket_witness:
  "ws_close_calls (connection_handler OPEN (SendMessageStreamRejects (backend_error (ascii ''denied'')))) = [None]
   \<and> ws_readyState (connection_handler OPEN (SendMessageStreamRejects (backend_error (ascii ''denied'')))) = CLOSING
   \<and> ws_readyState (connection_handler CLOSED (SendMessageStreamRejects (backend_error (ascii ''denied'')))) = CLOSED
   \<and> console (connection_handler OPEN (SendMessageStreamRejects (backend_error (ascii ''denied''))))
      = [Logged msg_client_connected, Logged msg_stream_started,
         LoggedError msg_connect_error (backend_error (ascii ''denied''))]
   \<and> ws_sent (run (node_host True) (connection_handler OPEN (SendMessageStreamRejects (backend_error (ascii ''denied''))))
        [BrowserMessage [1, 2], StreamItem (text_item (JStr (ascii ''late''))), BrowserClose]) = []
   \<and> backend_calls (run (node_host True) (connection_handler OPEN (SendMessageStreamRejects (backend_error (ascii ''denied''))))
        [BrowserMessage [1, 2], StreamItem (text_item (JStr (ascii ''late''))), BrowserClose])
      = [StartChat, SendMessageStream []]"
proof -
  let ?e = "backend_error (ascii ''denied'')"
  have r: "SendMessageStreamRejects ?e = StartChatThrows ?e \<or> SendMessageStreamRejects ?e = SendMessageStreamRejects ?e"
    by simp
  show ?thesis
    using open_failure_closes_socket [OF r, of OPEN "node_host True"
        "[BrowserMessage [1, 2], StreamItem (text_item (JStr (ascii ''late''))), BrowserClose]"]
      open_failure_closes_socket [OF r, of CLOSED "node_host True" "[]"]
    by simp
qed

subsection \<open>Downstream\<close>

text \<open>
  On a host that binds the global \<open>WebSocket\<close>, the loop sends one message per item
  whose text is truthy, in the order of the stream, while the socket is open; each
  message is the JSON text of \<open>{type: 'transcript', data: text}\<close>.
\<close>

lemma on_stream_item_sends:
  assumes "global_WebSocket h" and "item_text item = Inr t"
  shows "on_stream_item h s item =
     (if truthy t \<and> ws_readyState s = OPEN then ws_send s (JSON_stringify h (transcript_message t)) else s)"
  using assms item_text_truthy [OF assms(2)]
  by (simp add: on_stream_item_def WebSocket_OPEN_def)

lemma downstream_in_order:
  assumes "global_WebSocket h" and "downstream_running s" and "ws_readyState s = OPEN"
    and "list_all2 (\<lambda>item t. item_text item = Inr t) items ts"
  shows "ws_sent (run h s (map StreamItem items)) =
     ws_sent s @ map (\<lambda>t. JSON_stringify h (transcript_message t)) (filter truthy ts)"
  using assms(4,2,3) unfolding run_def
proof (induction items ts arbitrary: s rule: list_all2_induct)
  case Nil
  then show ?case by simp
next
  case (Cons item items t ts)
  let ?s = "step h s (StreamItem item)"
  have s: "?s = (if truthy t then ws_send s (JSON_stringify h (transcript_message t)) else s)"
    using Cons.prems Cons.hyps(1) on_stream_item_sends [OF assms(1), of item t s] by simp
  then have "downstream_running ?s" and "ws_readyState ?s = OPEN"
    using Cons.prems by (simp_all add: ws_send_def)
  then have "ws_sent (foldl (step h) ?s (map StreamItem items)) =
      ws_sent ?s @ map (\<lambda>t. JSON_stringify h (transcript_message t)) (filter truthy ts)"
    by (rule Cons.IH)
  with s show ?case
    by (simp add: ws_send_def)
qed

lemma sends_only_while_open:
  "ws_readyState s \<noteq> OPEN \<Longrightarrow> ws_sent (step h s ev) = ws_sent s"
  by (cases ev)
    (auto simp: on_message_def on_close_def console_log_def on_stream_item_def stream_catch_def
      console_error_def WebSocket_OPEN_def Let_def split: sum.splits)

lemma transcript_json:
  "JSON_stringify h (transcript_message (JStr t)) =
     JStr (ascii ''{'' @ QuoteJSONString (ascii ''type'') @ ascii '':'' @ QuoteJSONString (ascii ''transcript'') @
           ascii '','' @ QuoteJSONString (ascii ''data'') @ ascii '':'' @ QuoteJSONString t @ ascii ''}'')"
  by (simp add: JSON_stringify_def transcript_message_def)

text \<open>
  An example on such a host: two items with text are sent in order, as the JSON text
  of line 57; the item whose text is empty is skipped, and so is the item that arrives
  after the browser has closed.
\<close>

lemma downstream_with_global_WebSocket:
  "ws_sent (run (node_host True) (on_connection StreamOpened)
        [StreamItem (text_item (JStr (ascii ''hi''))), StreamItem (text_item (JStr [])),
         StreamItem (text_item (JStr (ascii ''there''))), BrowserClose,
         StreamItem (text_item (JStr (ascii ''late'')))])
     = [JStr (ascii ''{\"type\":\"transcript\",\"data\":\"hi\"}''),
        JStr (ascii ''{\"type\":\"transcript\",\"data\":\"there\"}'')]"
  by (simp add: on_connection_opened run_def on_stream_item_def item_text_def text_item_def first_text_def
      WebSocket_OPEN_def node_host_def ws_send_def JSON_stringify_def transcript_message_def
      QuoteJSONString_def quote_unit_def is_high_surrogate_def is_low_surrogate_def
      on_close_def console_log_def ascii_def)

text \<open>
  C3 fails on a host that does not bind the global \<open>WebSocket\<close>: the socket is open
  and the stream emits two items with text, but evaluating \<open>WebSocket.OPEN\<close> on line
  56 throws a ReferenceError at the first of them, the \<open>catch\<close> of line 61 logs it,
  the loop is over and nothing is sent.
\<close>

theorem downstream_without_global_WebSocket:
  "ws_readyState (on_connection StreamOpened) = OPEN
   \<and> item_text (text_item (JStr (ascii ''hi''))) = Inr (JStr (ascii ''hi''))
   \<and> ws_sent (run (node_host False) (on_connection StreamOpened)
        [StreamItem (text_item (JStr (ascii ''hi''))), StreamItem (text_item (JStr (ascii ''there'')))]) = []
   \<and> console (run (node_host False) (on_connection StreamOpened)
        [StreamItem (text_item (JStr (ascii ''hi''))), StreamItem (text_item (JStr (ascii ''there'')))])
      = [Logged msg_client_connected, Logged msg_stream_started,
         LoggedError msg_stream_receive_error (ReferenceError (ascii ''WebSocket''))]"
  by (simp add: on_connection_opened run_def on_stream_item_def item_text_def text_item_def first_text_def
      WebSocket_OPEN_def node_host_def stream_catch_def console_error_def ascii_def)

end
